theory Spec2Isabelle
  imports Complex_Main "HOL-Library.Product_Lexorder"
begin

section \<open>Calendar dates and timestamps\<close>

text \<open>
  The program reads the wall clock with \<^verbatim>\<open>datetime.now()\<close> and stores timestamps as text:
  \<^verbatim>\<open>isoformat()\<close> for \<^verbatim>\<open>start_time\<close> and \<^verbatim>\<open>end_time\<close>, \<^verbatim>\<open>strftime("%Y-%m-%d")\<close> for \<^verbatim>\<open>date\<close>.
  Both texts are fixed-width, zero-padded encodings of the fields of the timestamp, so a
  stored text is modelled by the fields it encodes: equality of texts is equality of the
  fields, and the text order used by \<^verbatim>\<open>ORDER BY\<close> and \<^verbatim>\<open>>=\<close> is the lexicographic order of
  the fields (\<open>date_key\<close>, \<open>datetime_key\<close>).
\<close>

record date =
  d_year :: int
  d_month :: int
  d_day :: int

record datetime =
  dt_date :: date
  dt_hour :: int
  dt_minute :: int
  dt_second :: int
  dt_microsecond :: int

definition date_key :: "date \<Rightarrow> int \<times> int \<times> int" where
  "date_key d = (d_year d, d_month d, d_day d)"

definition datetime_key :: "datetime \<Rightarrow> (int \<times> int \<times> int) \<times> int \<times> int \<times> int \<times> int" where
  "datetime_key t =
     (date_key (dt_date t), dt_hour t, dt_minute t, dt_second t, dt_microsecond t)"

text \<open>The proleptic Gregorian calendar of Python's \<^verbatim>\<open>datetime\<close> module.\<close>

definition is_leap :: "int \<Rightarrow> bool" where
  "is_leap y = (if y mod 100 = 0 then y mod 400 = 0 else y mod 4 = 0)"

definition days_in_month :: "int \<Rightarrow> int \<Rightarrow> int" where
  "days_in_month y m =
     (if m = 2 then (if is_leap y then 29 else 28)
      else if m = 4 \<or> m = 6 \<or> m = 9 \<or> m = 11 then 30
      else 31)"

definition days_before_year :: "int \<Rightarrow> int" where
  "days_before_year y = (y - 1) * 365 + (y - 1) div 4 - (y - 1) div 100 + (y - 1) div 400"

definition days_before_month :: "int \<Rightarrow> int \<Rightarrow> int" where
  "days_before_month y m = (\<Sum>k \<leftarrow> [1..<nat m]. days_in_month y (int k))"

definition toordinal :: "date \<Rightarrow> int" where
  "toordinal d = days_before_year (d_year d) + days_before_month (d_year d) (d_month d) + d_day d"

definition weekday :: "date \<Rightarrow> int" where
  \<comment> \<open>0 is Monday\<close>
  "weekday d = (toordinal d + 6) mod 7"

definition to_microseconds :: "datetime \<Rightarrow> int" where
  "to_microseconds t =
     (((toordinal (dt_date t) * 24 + dt_hour t) * 60 + dt_minute t) * 60 + dt_second t) * 1000000
       + dt_microsecond t"

datatype error = IntegrityError | ValueError | ZeroDivisionError | OverflowError

definition MINYEAR :: int where "MINYEAR = 1"
definition MAXYEAR :: int where "MAXYEAR = 9999"


definition next_day :: "date \<Rightarrow> date" where
  "next_day d =
     (if d_day d < days_in_month (d_year d) (d_month d) then d\<lparr>d_day := d_day d + 1\<rparr>
      else if d_month d < 12 then d\<lparr>d_month := d_month d + 1, d_day := 1\<rparr>
      else \<lparr>d_year = d_year d + 1, d_month = 1, d_day = 1\<rparr>)"

definition prev_day :: "date \<Rightarrow> date" where
  "prev_day d =
     (if 1 < d_day d then d\<lparr>d_day := d_day d - 1\<rparr>
      else if 1 < d_month d
        then d\<lparr>d_month := d_month d - 1, d_day := days_in_month (d_year d) (d_month d - 1)\<rparr>
      else \<lparr>d_year = d_year d - 1, d_month = 12, d_day = 31\<rparr>)"

definition in_range :: "date \<Rightarrow> error + date" where
  \<comment> \<open>date arithmetic raises \<^verbatim>\<open>OverflowError\<close> outside the years 1 to 9999\<close>
  "in_range d = (if MINYEAR \<le> d_year d \<and> d_year d \<le> MAXYEAR then Inr d else Inl OverflowError)"

definition plus_days :: "date \<Rightarrow> nat \<Rightarrow> error + date" where
  \<comment> \<open>\<^verbatim>\<open>d + timedelta(days=n)\<close>\<close>
  "plus_days d n = in_range ((next_day ^^ n) d)"

definition minus_days :: "date \<Rightarrow> nat \<Rightarrow> error + date" where
  \<comment> \<open>\<^verbatim>\<open>d - timedelta(days=n)\<close>\<close>
  "minus_days d n = in_range ((prev_day ^^ n) d)"

text \<open>
  \<^verbatim>\<open>int(x)\<close> on a float truncates toward zero. The floats of the program are quotients of
  integers; they are modelled by exact rationals, so the model leaves out the rounding of
  IEEE doubles (none occurs for the products and quotients below while the integers stay
  under \<open>2^53\<close> and the quotient is not within rounding distance of an integer).
\<close>

definition py_int_of :: "rat \<Rightarrow> int" where
  "py_int_of x = (if 0 \<le> x then \<lfloor>x\<rfloor> else \<lceil>x\<rceil>)"

definition minutes_between :: "datetime \<Rightarrow> datetime \<Rightarrow> int" where
  \<comment> \<open>\<^verbatim>\<open>int((now - start_time).total_seconds() / 60)\<close>\<close>
  "minutes_between start_time now =
     py_int_of (of_int (to_microseconds now - to_microseconds start_time) / 1000000 / 60)"

section \<open>Text of integers\<close>

definition digit_char :: "nat \<Rightarrow> char" where
  "digit_char n = char_of (48 + n)"

function str_digits :: "int \<Rightarrow> string" where
  \<comment> \<open>the decimal digits of a non-negative integer\<close>
  "str_digits n =
     (if n < 10 then [digit_char (nat n)]
      else str_digits (n div 10) @ [digit_char (nat (n mod 10))])"
  by pat_completeness auto
termination
  by (relation "measure nat") auto

declare str_digits.simps [simp del]

definition str_int :: "int \<Rightarrow> string" where
  \<comment> \<open>\<^verbatim>\<open>str(i)\<close>, as an f-string interpolates an integer\<close>
  "str_int i = (if i < 0 then CHR ''-'' # str_digits (- i) else str_digits i)"

section \<open>The datastore and the current-session marker\<close>

text \<open>
  The three tables of \<^verbatim>\<open>init_db\<close> are lists of rows in insertion order; \<^verbatim>\<open>config\<close>, whose
  key is the primary key and which is only written by \<^verbatim>\<open>INSERT OR IGNORE\<close> and
  \<^verbatim>\<open>INSERT OR REPLACE\<close>, is a map. \<^verbatim>\<open>NULL\<close> is \<open>None\<close>. The column \<^verbatim>\<open>created_at\<close> is filled by
  the engine and read only by the task listing; it is left out.

  The relational engine is not part of the program. The model takes each statement at its
  face value: an \<^verbatim>\<open>INSERT\<close> appends the row unless its primary key is already there (then it
  raises \<^verbatim>\<open>IntegrityError\<close>), an \<^verbatim>\<open>UPDATE\<close> rewrites the rows its \<^verbatim>\<open>WHERE\<close> selects, and nothing
  is committed when a command raises before \<^verbatim>\<open>conn.commit()\<close>. The session id is kept as the
  text the program generates; the schema declares that column \<^verbatim>\<open>INTEGER PRIMARY KEY\<close>, and
  what the engine makes of a text value there is outside this model.
\<close>

record session =
  s_id :: string
  s_start_time :: datetime
  s_end_time :: "datetime option"
  s_planned_duration :: int
  s_actual_duration :: "int option"
  s_completed :: bool
  s_task_id :: "string option"
  s_interruption_reason :: "string option"
  s_date :: date

record task =
  t_id :: string
  t_name :: string
  t_completed_pomodoros :: int
  t_total_minutes :: int

record marker =
  m_id :: string
  m_start_time :: datetime
  m_duration :: int
  m_task_id :: "string option"
  m_task_name :: "string option"

record state =
  sessions :: "session list"
  tasks :: "task list"
  config :: "string \<rightharpoonup> string"
  current_session :: "marker option"

definition empty_state :: state where
  \<comment> \<open>a fresh data directory: no rows, no marker file\<close>
  "empty_state = \<lparr>sessions = [], tasks = [], config = Map.empty, current_session = None\<rparr>"

definition init_db :: "state \<Rightarrow> state" where
  \<comment> \<open>\<^verbatim>\<open>INSERT OR IGNORE INTO config (key, value) VALUES ('daily_goal', '8')\<close>\<close>
  "init_db s =
     (case config s ''daily_goal'' of
        None \<Rightarrow> s\<lparr>config := (config s)(''daily_goal'' \<mapsto> ''8'')\<rparr>
      | Some _ \<Rightarrow> s)"

definition generate_session_id :: "int \<Rightarrow> string" where
  \<comment> \<open>the argument is \<^verbatim>\<open>int(time.time() * 1000)\<close>\<close>
  "generate_session_id ms = ''session_'' @ str_int ms"

definition generate_task_id :: "int \<Rightarrow> string" where
  "generate_task_id ms = ''task_'' @ str_int ms"

section \<open>Session lifecycle\<close>

text \<open>What a command prints, with the values it interpolates.\<close>

datatype message =
    Pomodoro_started int "string option"
  | Focusing int "int list"
  | Times_up
  | Manual_hint
  | No_active_session
  | Pomodoro_completed int
  | Pomodoro_interrupted int string

record start_args =
  a_task :: "string option"
  a_duration :: int

text \<open>
  The clock readings of one run of \<^verbatim>\<open>start\<close>: \<^verbatim>\<open>datetime.now()\<close>, the two readings of
  \<^verbatim>\<open>time.time()\<close> that make the session id and the task id, and \<^verbatim>\<open>datetime.now()\<close> as
  \<^verbatim>\<open>cmd_complete\<close> reads it once the countdown is over.
\<close>

record clock =
  c_now :: datetime
  c_session_ms :: int
  c_task_ms :: int
  c_later :: datetime

definition truthy_str :: "string option \<Rightarrow> bool" where
  \<comment> \<open>truth value of an optional string: neither \<^verbatim>\<open>None\<close> nor empty\<close>
  "truthy_str x = (case x of None \<Rightarrow> False | Some v \<Rightarrow> v \<noteq> [])"

definition or_default :: "int \<Rightarrow> int \<Rightarrow> int" where
  \<comment> \<open>\<^verbatim>\<open>x or d\<close> on integers\<close>
  "or_default x d = (if x = 0 then d else x)"

definition resolve_task :: "string option \<Rightarrow> int \<Rightarrow> task list \<Rightarrow> error + (string option \<times> task list)" where
  \<comment> \<open>lines 99 to 111: look the task up by name, create it on a miss\<close>
  "resolve_task name ms ts =
     (if truthy_str name then
        (case find (\<lambda>t. t_name t = the name) ts of
           Some t \<Rightarrow> Inr (Some (t_id t), ts)
         | None \<Rightarrow>
            (let task_id = generate_task_id ms in
             if task_id \<in> set (map t_id ts) then Inl IntegrityError
             else Inr (Some task_id,
                       ts @ [\<lparr>t_id = task_id, t_name = the name,
                              t_completed_pomodoros = 0, t_total_minutes = 0\<rparr>])))
      else Inr (None, ts))"

definition start_session :: "start_args \<Rightarrow> clock \<Rightarrow> state \<Rightarrow> error + state" where
  \<comment> \<open>lines 92 to 130: the inserts, the commit and the marker file\<close>
  "start_session args clk s =
     (let now = c_now clk;
          session_id = generate_session_id (c_session_ms clk)
      in case resolve_task (a_task args) (c_task_ms clk) (tasks s) of
           Inl e \<Rightarrow> Inl e
         | Inr (task_id, tasks') \<Rightarrow>
            if session_id \<in> set (map s_id (sessions s)) then Inl IntegrityError
            else Inr (s\<lparr>sessions := sessions s @
                          [\<lparr>s_id = session_id, s_start_time = now, s_end_time = None,
                            s_planned_duration = or_default (a_duration args) 25,
                            s_actual_duration = None, s_completed = False,
                            s_task_id = task_id, s_interruption_reason = None,
                            s_date = dt_date now\<rparr>],
                        tasks := tasks',
                        current_session :=
                          Some \<lparr>m_id = session_id, m_start_time = now,
                                m_duration = or_default (a_duration args) 25,
                                m_task_id = task_id, m_task_name = a_task args\<rparr>\<rparr>))"

definition complete_row :: "string \<Rightarrow> datetime \<Rightarrow> int \<Rightarrow> session \<Rightarrow> session" where
  \<comment> \<open>\<^verbatim>\<open>UPDATE sessions SET end_time = ?, actual_duration = ?, completed = 1 WHERE id = ?\<close>\<close>
  "complete_row sid now actual_duration r =
     (if s_id r = sid
      then r\<lparr>s_end_time := Some now, s_actual_duration := Some actual_duration, s_completed := True\<rparr>
      else r)"

definition credit_task :: "string \<Rightarrow> int \<Rightarrow> task \<Rightarrow> task" where
  \<comment> \<open>\<^verbatim>\<open>UPDATE tasks SET completed_pomodoros = completed_pomodoros + 1,
      total_minutes = total_minutes + ? WHERE id = ?\<close>\<close>
  "credit_task tid actual_duration t =
     (if t_id t = tid
      then t\<lparr>t_completed_pomodoros := t_completed_pomodoros t + 1,
             t_total_minutes := t_total_minutes t + actual_duration\<rparr>
      else t)"

definition interrupt_row :: "string \<Rightarrow> datetime \<Rightarrow> int \<Rightarrow> string \<Rightarrow> session \<Rightarrow> session" where
  \<comment> \<open>\<^verbatim>\<open>UPDATE sessions SET end_time = ?, actual_duration = ?, completed = 0,
      interruption_reason = ? WHERE id = ?\<close>\<close>
  "interrupt_row sid now actual_duration reason r =
     (if s_id r = sid
      then r\<lparr>s_end_time := Some now, s_actual_duration := Some actual_duration,
             s_completed := False, s_interruption_reason := Some reason\<rparr>
      else r)"

definition cmd_complete :: "datetime \<Rightarrow> state \<Rightarrow> message list \<times> state" where
  "cmd_complete now s =
     (case current_session s of
        None \<Rightarrow> ([No_active_session], s)
      | Some session \<Rightarrow>
         (let actual_duration = minutes_between (m_start_time session) now;
              sessions' = map (complete_row (m_id session) now actual_duration) (sessions s);
              tasks' = (if truthy_str (m_task_id session)
                        then map (credit_task (the (m_task_id session)) actual_duration) (tasks s)
                        else tasks s)
          in ([Pomodoro_completed actual_duration],
              s\<lparr>sessions := sessions', tasks := tasks', current_session := None\<rparr>)))"

definition cmd_interrupt :: "string option \<Rightarrow> datetime \<Rightarrow> state \<Rightarrow> message list \<times> state" where
  "cmd_interrupt reason now s =
     (case current_session s of
        None \<Rightarrow> ([No_active_session], s)
      | Some session \<Rightarrow>
         (let actual_duration = minutes_between (m_start_time session) now;
              sessions' = map (interrupt_row (m_id session) now actual_duration
                                 (if truthy_str reason then the reason else ''Unknown''))
                              (sessions s)
          in ([Pomodoro_interrupted actual_duration
                 (if truthy_str reason then the reason else ''Not specified'')],
              s\<lparr>sessions := sessions', current_session := None\<rparr>)))"

function countdown :: "int \<Rightarrow> int list" where
  \<comment> \<open>the \<^verbatim>\<open>while remaining > 0\<close> loop; the result lists the values of \<^verbatim>\<open>remaining\<close> it prints\<close>
  "countdown remaining = (if remaining > 0 then remaining # countdown (remaining - 1) else [])"
  by pat_completeness auto
termination
  by (relation "measure nat") auto

declare countdown.simps [simp del]

definition cmd_start :: "start_args \<Rightarrow> clock \<Rightarrow> state \<Rightarrow> error + message list \<times> state" where
  "cmd_start args clk s =
     (case start_session args clk s of
        Inl e \<Rightarrow> Inl e
      | Inr s' \<Rightarrow>
         (let duration = or_default (a_duration args) 25;
              out = [Pomodoro_started duration (a_task args)]
          in if a_duration args \<noteq> 0 \<and> a_duration args > 0
             then (case cmd_complete (c_later clk) s' of
                     (out', s'') \<Rightarrow>
                       Inr (out @ [Focusing duration (countdown (a_duration args * 60)), Times_up] @ out',
                            s''))
             else Inr (out @ [Manual_hint], s')))"

section \<open>Configuration and tasks\<close>

definition is_space :: "char \<Rightarrow> bool" where
  \<comment> \<open>the ASCII characters that \<^verbatim>\<open>int()\<close> strips: tab, newline, vertical tab, form feed,
      carriage return, space\<close>
  "is_space c \<longleftrightarrow> (of_char c :: nat) \<in> {9, 10, 11, 12, 13, 32}"

definition is_digit :: "char \<Rightarrow> bool" where
  "is_digit c \<longleftrightarrow> 48 \<le> (of_char c :: nat) \<and> (of_char c :: nat) \<le> 57"

definition digit_val :: "char \<Rightarrow> nat" where
  "digit_val c = of_char c - 48"

definition strip :: "string \<Rightarrow> string" where
  "strip v = rev (dropWhile is_space (rev (dropWhile is_space v)))"

fun digits :: "string \<Rightarrow> nat \<Rightarrow> nat option" where
  "digits [] acc = Some acc"
| "digits (c # cs) acc =
     (if c = CHR ''_'' then
        (case cs of [] \<Rightarrow> None | d # _ \<Rightarrow> if is_digit d then digits cs acc else None)
      else if is_digit c then digits cs (acc * 10 + digit_val c)
      else None)"

definition unsigned :: "string \<Rightarrow> nat option" where
  \<comment> \<open>decimal digits, single underscores allowed between two digits\<close>
  "unsigned v = (case v of [] \<Rightarrow> None | c # _ \<Rightarrow> if is_digit c then digits v 0 else None)"

definition py_int :: "string \<Rightarrow> error + int" where
  \<comment> \<open>the builtin \<^verbatim>\<open>int(v)\<close> on ASCII text: surrounding whitespace, an optional sign, a decimal
      literal; anything else raises \<^verbatim>\<open>ValueError\<close>. (Unicode digits and the interpreter's
      limit on the number of digits are not modelled.)\<close>
  "py_int v =
     (case strip v of
        [] \<Rightarrow> Inl ValueError
      | c # cs \<Rightarrow>
         if c = CHR ''-'' then (case unsigned cs of None \<Rightarrow> Inl ValueError | Some n \<Rightarrow> Inr (- int n))
         else if c = CHR ''+'' then (case unsigned cs of None \<Rightarrow> Inl ValueError | Some n \<Rightarrow> Inr (int n))
         else (case unsigned (c # cs) of None \<Rightarrow> Inl ValueError | Some n \<Rightarrow> Inr (int n)))"

definition get_daily_goal :: "state \<Rightarrow> error + int" where
  \<comment> \<open>\<^verbatim>\<open>int(goal_result[0]) if goal_result else 8\<close>\<close>
  "get_daily_goal s = (case config s ''daily_goal'' of None \<Rightarrow> Inr 8 | Some v \<Rightarrow> py_int v)"

datatype config_message = Goal_set string | Current_goal string

definition cmd_config :: "string option \<Rightarrow> state \<Rightarrow> config_message \<times> state" where
  \<comment> \<open>\<^verbatim>\<open>config daily_goal [--value V]\<close>\<close>
  "cmd_config val s =
     (if truthy_str val
      then (Goal_set (the val), s\<lparr>config := (config s)(''daily_goal'' \<mapsto> the val)\<rparr>)
      else (Current_goal (case config s ''daily_goal'' of None \<Rightarrow> ''8'' | Some v \<Rightarrow> v), s))"

datatype task_message = Name_missing | Task_added string

definition cmd_task_add :: "string option \<Rightarrow> int \<Rightarrow> state \<Rightarrow> error + task_message \<times> state" where
  \<comment> \<open>\<^verbatim>\<open>task add [--name NAME]\<close>; the integer is \<^verbatim>\<open>int(time.time() * 1000)\<close>\<close>
  "cmd_task_add name ms s =
     (if \<not> truthy_str name then Inr (Name_missing, s)
      else let task_id = generate_task_id ms in
        if task_id \<in> set (map t_id (tasks s)) then Inl IntegrityError
        else Inr (Task_added (the name),
                  s\<lparr>tasks := tasks s @ [\<lparr>t_id = task_id, t_name = the name,
                                          t_completed_pomodoros = 0, t_total_minutes = 0\<rparr>]\<rparr>))"

section \<open>Reports\<close>

definition sql_sum :: "int option list \<Rightarrow> int option" where
  \<comment> \<open>\<^verbatim>\<open>SUM(x)\<close>: the sum of the values that are not \<^verbatim>\<open>NULL\<close>, and \<^verbatim>\<open>NULL\<close> when there is none\<close>
  "sql_sum xs = (case List.map_filter id xs of [] \<Rightarrow> None | v # vs \<Rightarrow> Some (sum_list (v # vs)))"

definition or_zero :: "int option \<Rightarrow> int" where
  \<comment> \<open>\<^verbatim>\<open>x or 0\<close>\<close>
  "or_zero x = (case x of None \<Rightarrow> 0 | Some v \<Rightarrow> v)"

datatype cell = Filled | Unfilled

definition progress :: "int \<Rightarrow> int \<Rightarrow> error + rat" where
  \<comment> \<open>\<^verbatim>\<open>min(count / daily_goal, 1.0)\<close>\<close>
  "progress count daily_goal =
     (if daily_goal = 0 then Inl ZeroDivisionError
      else Inr (min (of_int count / of_int daily_goal) 1))"

definition render_bar :: "int \<Rightarrow> rat \<Rightarrow> cell list" where
  \<comment> \<open>\<^verbatim>\<open>filled = int(bar_length * progress)\<close>, then the two repeated characters; a string
      repeated a negative number of times is empty\<close>
  "render_bar bar_length p =
     (let filled = py_int_of (of_int bar_length * p)
      in replicate (nat filled) Filled @ replicate (nat (bar_length - filled)) Unfilled)"

record today_report =
  r_today :: date
  r_completed_count :: int
  r_total_minutes :: int
  r_interrupted_count :: int
  r_interrupted_minutes :: int
  r_daily_goal :: int
  r_remaining :: "int option"
  r_bar :: "cell list"

definition is_completed_on :: "date \<Rightarrow> session \<Rightarrow> bool" where
  \<comment> \<open>\<^verbatim>\<open>WHERE date = ? AND completed = 1\<close>\<close>
  "is_completed_on d r \<longleftrightarrow> s_date r = d \<and> s_completed r"

definition is_interrupted_on :: "date \<Rightarrow> session \<Rightarrow> bool" where
  \<comment> \<open>\<^verbatim>\<open>WHERE date = ? AND completed = 0 AND interruption_reason IS NOT NULL\<close>\<close>
  "is_interrupted_on d r \<longleftrightarrow> s_date r = d \<and> \<not> s_completed r \<and> s_interruption_reason r \<noteq> None"

definition cmd_today :: "datetime \<Rightarrow> state \<Rightarrow> error + today_report" where
  "cmd_today now s =
     (let today = dt_date now;
          done = filter (is_completed_on today) (sessions s);
          completed_count = int (length done);
          total_minutes = or_zero (sql_sum (map s_actual_duration done));
          broken = filter (is_interrupted_on today) (sessions s);
          interrupted_count = int (length broken);
          interrupted_minutes = or_zero (sql_sum (map s_actual_duration broken))
      in case get_daily_goal s of
           Inl e \<Rightarrow> Inl e
         | Inr daily_goal \<Rightarrow>
            (case progress completed_count daily_goal of
               Inl e \<Rightarrow> Inl e
             | Inr p \<Rightarrow>
                Inr \<lparr>r_today = today, r_completed_count = completed_count,
                     r_total_minutes = total_minutes,
                     r_interrupted_count = interrupted_count,
                     r_interrupted_minutes = interrupted_minutes,
                     r_daily_goal = daily_goal,
                     r_remaining = (if completed_count \<ge> daily_goal then None
                                    else Some (daily_goal - completed_count)),
                     r_bar = render_bar 20 p\<rparr>))"

definition group_by_date :: "session list \<Rightarrow> (date \<times> int \<times> int option) list" where
  \<comment> \<open>\<^verbatim>\<open>SELECT date, COUNT(*), SUM(actual_duration) ... GROUP BY date ORDER BY date\<close>\<close>
  "group_by_date rs =
     map (\<lambda>d. (d, int (length (filter (\<lambda>r. s_date r = d) rs)),
                sql_sum (map s_actual_duration (filter (\<lambda>r. s_date r = d) rs))))
         (sort_key date_key (remdups (map s_date rs)))"

record week_report =
  w_week_start :: date
  w_today :: date
  w_days :: "(date \<times> int \<times> int \<times> cell list) list"
  w_total_pomodoros :: int
  w_total_minutes :: int
  w_daily_average :: rat

datatype week_message = No_pomodoros_this_week | Week week_report

fun week_loop ::
  "int \<Rightarrow> (date \<times> int \<times> int option) list \<Rightarrow> int \<times> int \<times> (date \<times> int \<times> int \<times> cell list) list
     \<Rightarrow> error + int \<times> int \<times> (date \<times> int \<times> int \<times> cell list) list" where
  "week_loop daily_goal [] acc = Inr acc"
| "week_loop daily_goal ((d, count, minutes) # rows) (total_pomodoros, total_minutes, lines) =
     (case progress count daily_goal of
        Inl e \<Rightarrow> Inl e
      | Inr p \<Rightarrow>
         week_loop daily_goal rows
           (total_pomodoros + count, total_minutes + or_zero minutes,
            lines @ [(d, count, or_zero minutes, render_bar 10 p)]))"

definition since_completed :: "date \<Rightarrow> session \<Rightarrow> bool" where
  \<comment> \<open>\<^verbatim>\<open>WHERE date >= ? AND completed = 1\<close>, on the texts of the dates\<close>
  "since_completed week_start r \<longleftrightarrow> date_key week_start \<le> date_key (s_date r) \<and> s_completed r"

definition cmd_week :: "datetime \<Rightarrow> state \<Rightarrow> error + week_message" where
  "cmd_week now s =
     (let today = dt_date now in
      case minus_days today (nat (weekday today)) of
        Inl e \<Rightarrow> Inl e
      | Inr week_start \<Rightarrow>
         (let rows = group_by_date (filter (since_completed week_start) (sessions s)) in
          case get_daily_goal s of
            Inl e \<Rightarrow> Inl e
          | Inr daily_goal \<Rightarrow>
             if rows = [] then Inr No_pomodoros_this_week
             else (case week_loop daily_goal rows (0, 0, []) of
                     Inl e \<Rightarrow> Inl e
                   | Inr (total_pomodoros, total_minutes, lines) \<Rightarrow>
                      Inr (Week \<lparr>w_week_start = week_start, w_today = today, w_days = lines,
                                 w_total_pomodoros = total_pomodoros,
                                 w_total_minutes = total_minutes,
                                 w_daily_average = of_int total_pomodoros / 7\<rparr>))))"











definition last_day_of :: "date \<Rightarrow> error + date" where
  \<comment> \<open>\<^verbatim>\<open>(first_day + timedelta(days=32)).replace(day=1) - timedelta(days=1)\<close>\<close>
  "last_day_of first_day =
     (case plus_days first_day 32 of
        Inl e \<Rightarrow> Inl e
      | Inr d \<Rightarrow> minus_days (d\<lparr>d_day := 1\<rparr>) 1)"


section \<open>Export\<close>

text \<open>One exported record: the dict built at lines 522 to 532, with its nine keys.\<close>

record export_record =
  e_id :: string
  e_start_time :: datetime
  e_end_time :: "datetime option"
  e_planned_duration :: int
  e_actual_duration :: "int option"
  e_completed :: bool
  e_task_id :: "string option"
  e_interruption_reason :: "string option"
  e_date :: date

definition to_record :: "session \<Rightarrow> export_record" where
  "to_record row =
     \<lparr>e_id = s_id row, e_start_time = s_start_time row, e_end_time = s_end_time row,
      e_planned_duration = s_planned_duration row, e_actual_duration = s_actual_duration row,
      e_completed = s_completed row, e_task_id = s_task_id row,
      e_interruption_reason = s_interruption_reason row, e_date = s_date row\<rparr>"

definition order_by_start_time_desc :: "session list \<Rightarrow> session list" where
  \<comment> \<open>\<^verbatim>\<open>ORDER BY start_time DESC\<close>; the order among equal start times is the engine's choice\<close>
  "order_by_start_time_desc rows = rev (sort_key (\<lambda>r. datetime_key (s_start_time r)) rows)"

datatype export_message = Json_dump "export_record list" | Only_json_supported

definition cmd_export :: "string \<Rightarrow> state \<Rightarrow> export_message" where
  \<comment> \<open>\<^verbatim>\<open>Json_dump rs\<close> stands for the printed \<^verbatim>\<open>json.dumps(rs, indent=2)\<close>\<close>
  "cmd_export fmt s =
     (let sessions = map to_record (order_by_start_time_desc (sessions s))
      in if fmt = ''json'' then Json_dump sessions else Only_json_supported)"

section \<open>One invocation of the program\<close>

datatype command =
    Start start_args clock
  | Complete datetime
  | Interrupt "string option" datetime
  | Task_add "string option" int
  | Config_daily_goal "string option"
  | Report

definition main :: "command \<Rightarrow> state \<Rightarrow> state" where
  \<comment> \<open>the state one run of \<^verbatim>\<open>main\<close> leaves behind: \<^verbatim>\<open>init_db()\<close>, then the command; a command
      that raises commits nothing; \<^verbatim>\<open>Report\<close> is any of the reading commands
      (\<^verbatim>\<open>today\<close>, \<^verbatim>\<open>week\<close>, \<^verbatim>\<open>heatmap\<close>, \<^verbatim>\<open>task list\<close>, \<^verbatim>\<open>export\<close>) or no command at all\<close>
  "main cmd s =
     (let s0 = init_db s in
      case cmd of
        Start args clk \<Rightarrow> (case cmd_start args clk s0 of Inl e \<Rightarrow> s0 | Inr (out, s') \<Rightarrow> s')
      | Complete now \<Rightarrow> snd (cmd_complete now s0)
      | Interrupt reason now \<Rightarrow> snd (cmd_interrupt reason now s0)
      | Task_add name ms \<Rightarrow> (case cmd_task_add name ms s0 of Inl e \<Rightarrow> s0 | Inr (out, s') \<Rightarrow> s')
      | Config_daily_goal val \<Rightarrow> snd (cmd_config val s0)
      | Report \<Rightarrow> s0)"


section \<open>Runs of \<^verbatim>\<open>start\<close> that insert their rows\<close>

definition ids_fresh :: "start_args \<Rightarrow> clock \<Rightarrow> state \<Rightarrow> bool" where
  \<comment> \<open>the ids this run of \<^verbatim>\<open>start\<close> generates are not primary keys already: the session id,
      and the task id when the named task has to be created\<close>
  "ids_fresh args clk s =
     (generate_session_id (c_session_ms clk) \<notin> set (map s_id (sessions s))
      \<and> (if truthy_str (a_task args)
             \<and> find (\<lambda>t. t_name t = the (a_task args)) (tasks s) = None
          then generate_task_id (c_task_ms clk) \<notin> set (map t_id (tasks s))
          else True))"



section \<open>Concrete inputs\<close>

text \<open>Monday 4 March 2024, 09:00:00, and the same morning at 09:25:30.5.\<close>

definition example_now :: datetime where
  "example_now =
     \<lparr>dt_date = \<lparr>d_year = 2024, d_month = 3, d_day = 4\<rparr>,
      dt_hour = 9, dt_minute = 0, dt_second = 0, dt_microsecond = 0\<rparr>"

definition example_later :: datetime where
  "example_later =
     \<lparr>dt_date = \<lparr>d_year = 2024, d_month = 3, d_day = 4\<rparr>,
      dt_hour = 9, dt_minute = 25, dt_second = 30, dt_microsecond = 500000\<rparr>"

definition example_clock :: clock where
  "example_clock =
     \<lparr>c_now = example_now, c_session_ms = 1709542800000, c_task_ms = 1709542800001,
      c_later = example_later\<rparr>"

text \<open>The state after one manual session on the task "write", from a fresh data directory.\<close>

definition example_state :: state where
  "example_state =
     main (Complete example_later)
       (main (Start \<lparr>a_task = Some ''write'', a_duration = 0\<rparr> example_clock) empty_state)"

definition example_row :: session where
  "example_row =
     \<lparr>s_id = ''session_1709542800000'', s_start_time = example_now,
      s_end_time = Some example_later, s_planned_duration = 25, s_actual_duration = Some 25,
      s_completed = True, s_task_id = Some ''task_1709542800001'',
      s_interruption_reason = None, s_date = \<lparr>d_year = 2024, d_month = 3, d_day = 4\<rparr>\<rparr>"

section \<open>Reading the heatmap\<close>









section \<open>Active sessions\<close>

definition is_open :: "session \<Rightarrow> bool" where
  \<comment> \<open>a session row with no end timestamp\<close>
  "is_open r \<longleftrightarrow> s_end_time r = None"

definition open_sessions :: "state \<Rightarrow> session list" where
  "open_sessions s = filter is_open (sessions s)"




definition marker_matches :: "state \<Rightarrow> bool" where
  \<comment> \<open>the open rows are exactly the row the marker names\<close>
  "marker_matches s =
     (case current_session s of
        None \<Rightarrow> open_sessions s = []
      | Some m \<Rightarrow> map s_id (open_sessions s) = [m_id m])"



section \<open>Task totals\<close>









section \<open>Facts about the lifecycle commands\<close>

lemma py_int_of_nonneg: "0 \<le> x \<Longrightarrow> py_int_of x = \<lfloor>x\<rfloor>"
  by (simp add: py_int_of_def)



lemma start_session_returns:
  "(\<exists>s'. start_session args clk s = Inr s') \<longleftrightarrow> ids_fresh args clk s"
  by (auto simp: start_session_def ids_fresh_def resolve_task_def Let_def
           split: option.splits if_splits sum.splits)




section \<open>Completing or interrupting without a marker\<close>

text \<open>
  Claim C3. In every state with no current-session marker, \<^verbatim>\<open>complete\<close> and \<^verbatim>\<open>interrupt\<close>
  return normally, print the "no active session" notice and nothing else, and leave the
  whole state (the three tables and the absent marker) as it was.
\<close>

theorem no_marker_noop:
  assumes "current_session s = None"
  shows "cmd_complete now s = ([No_active_session], s)
       \<and> cmd_interrupt reason now s = ([No_active_session], s)"
  using assms by (simp add: cmd_complete_def cmd_interrupt_def)

theorem no_marker_noop_witness:
  "current_session empty_state = None
   \<and> cmd_complete example_later empty_state = ([No_active_session], empty_state)
   \<and> cmd_interrupt (Some ''phone'') example_later empty_state = ([No_active_session], empty_state)"
  using no_marker_noop [of empty_state example_later "Some ''phone''"]
  by (simp add: empty_state_def)

section \<open>Starting with duration zero\<close>



section \<open>Start followed by complete\<close>




section \<open>The daily report\<close>

lemma render_bar_length:
  assumes "0 \<le> p" "p \<le> 1" "0 \<le> n"
  shows "length (render_bar n p) = nat n"
    and "int (length (filter (\<lambda>c. c = Filled) (render_bar n p))) = \<lfloor>of_int n * p\<rfloor>"
proof -
  define k where "k = \<lfloor>of_int n * p\<rfloor>"
  have nn: "(0::rat) \<le> of_int n * p" using assms by simp
  have le: "of_int n * p \<le> (of_int n :: rat)" using assms by (simp add: mult_left_le)
  have k0: "0 \<le> k" using nn by (simp add: k_def)
  have k1: "k \<le> n" using le by (simp add: k_def floor_le_iff)
  have rb: "render_bar n p = replicate (nat k) Filled @ replicate (nat (n - k)) Unfilled"
    using nn by (simp add: render_bar_def Let_def py_int_of_nonneg k_def)
  show "length (render_bar n p) = nat n"
    unfolding rb using k0 k1 by simp
  show "int (length (filter (\<lambda>c. c = Filled) (render_bar n p))) = \<lfloor>of_int n * p\<rfloor>"
    unfolding rb k_def[symmetric] using k0 by simp
qed

lemma cmd_today_eq:
  assumes "get_daily_goal s = Inr g" and "progress (int (length (filter (is_completed_on (dt_date now)) (sessions s)))) g = Inr p"
  shows "\<exists>tm ic im rem. cmd_today now s =
     Inr \<lparr>r_today = dt_date now,
          r_completed_count = int (length (filter (is_completed_on (dt_date now)) (sessions s))),
          r_total_minutes = tm, r_interrupted_count = ic, r_interrupted_minutes = im,
          r_daily_goal = g, r_remaining = rem, r_bar = render_bar 20 p\<rparr>"
  using assms by (simp add: cmd_today_def Let_def)

text \<open>
  Claim C6. For every state whose daily goal is a positive integer, \<^verbatim>\<open>today\<close> returns its
  report; the completed count is the number of session rows whose date is the current
  calendar date and whose completed flag is set; the bar has 20 cells, and the number of
  filled ones is \<open>\<lfloor>20 * min (count / goal) 1\<rfloor>\<close>.
\<close>

theorem today_count_and_bar:
  assumes "get_daily_goal s = Inr g" and "0 < g"
  shows "\<exists>rep. cmd_today now s = Inr rep
     \<and> r_completed_count rep
         = int (length (filter (\<lambda>r. s_date r = dt_date now \<and> s_completed r) (sessions s)))
     \<and> length (r_bar rep) = 20
     \<and> int (length (filter (\<lambda>c. c = Filled) (r_bar rep)))
         = \<lfloor>20 * min (of_int (r_completed_count rep) / of_int g :: rat) 1\<rfloor>"
proof -
  define c where "c = int (length (filter (is_completed_on (dt_date now)) (sessions s)))"
  define p where "p = min (of_int c / of_int g :: rat) 1"
  have pr: "progress c g = Inr p" using assms(2) by (simp add: progress_def p_def)
  have p0: "0 \<le> p" using assms(2) by (simp add: p_def c_def)
  have p1: "p \<le> 1" by (simp add: p_def)
  from cmd_today_eq[OF assms(1) pr[unfolded c_def]] obtain tm ic im rem where
    ct: "cmd_today now s =
     Inr \<lparr>r_today = dt_date now, r_completed_count = c,
          r_total_minutes = tm, r_interrupted_count = ic, r_interrupted_minutes = im,
          r_daily_goal = g, r_remaining = rem, r_bar = render_bar 20 p\<rparr>"
    unfolding c_def by blast
  have c_eq: "c = int (length (filter (\<lambda>r. s_date r = dt_date now \<and> s_completed r) (sessions s)))"
    by (simp add: c_def is_completed_on_def [abs_def])
  have len: "length (render_bar 20 p) = 20"
    using render_bar_length(1)[OF p0 p1, of 20] by simp
  have fil: "int (length (filter (\<lambda>c. c = Filled) (render_bar 20 p))) = \<lfloor>20 * p\<rfloor>"
    using render_bar_length(2)[OF p0 p1, of 20] by simp
  show ?thesis
    unfolding ct using c_eq len fil by (simp add: p_def)
qed

theorem today_count_and_bar_witness:
  "get_daily_goal (init_db empty_state) = Inr 8 \<and> (0::int) < 8
   \<and> (\<exists>rep. cmd_today example_later (init_db empty_state) = Inr rep
     \<and> r_completed_count rep
         = int (length (filter (\<lambda>r. s_date r = dt_date example_later \<and> s_completed r) (sessions (init_db empty_state))))
     \<and> length (r_bar rep) = 20
     \<and> int (length (filter (\<lambda>c. c = Filled) (r_bar rep)))
         = \<lfloor>20 * min (of_int (r_completed_count rep) / of_int 8 :: rat) 1\<rfloor>)"
proof -
  have h: "get_daily_goal (init_db empty_state) = Inr 8"
    by (simp add: get_daily_goal_def init_db_def empty_state_def py_int_def strip_def
        is_space_def unsigned_def is_digit_def digit_val_def)
  from today_count_and_bar [OF h, of example_later] h show ?thesis by simp
qed

section \<open>Setting the daily goal\<close>

lemma py_int_error: "py_int v = Inl e \<Longrightarrow> e = ValueError"
  by (auto simp: py_int_def split: list.splits if_splits option.splits)





section \<open>The example state\<close>

lemma example_sessions: "sessions example_state = [example_row]"
  by code_simp


lemma example_goal: "get_daily_goal example_state = Inr 8"
  by code_simp

lemma example_marker: "current_session example_state = None"
  by code_simp

lemma example_monday:
  "minus_days (dt_date example_later) (nat (weekday (dt_date example_later)))
     = Inr \<lparr>d_year = 2024, d_month = 3, d_day = 4\<rparr>"
  by code_simp

section \<open>Export\<close>

lemma count_list_insort_key:
  "count_list (insort_key f a xs) x = count_list (a # xs) x"
  by (induction xs) auto

lemma count_list_sort_key: "count_list (sort_key f xs) x = count_list xs x"
  by (induction xs) (auto simp: count_list_insort_key)

lemma count_list_order_by:
  "count_list (order_by_start_time_desc rows) r = count_list rows r"
  by (simp add: order_by_start_time_desc_def count_list_sort_key)

lemma sorted_order_by:
  "sorted (rev (map (\<lambda>r. datetime_key (s_start_time r)) (order_by_start_time_desc rows)))"
  by (simp add: order_by_start_time_desc_def rev_map)

text \<open>
  Claim C8. \<^verbatim>\<open>export\<close> with format \<^verbatim>\<open>json\<close> dumps one flat record for every session row, each
  row exactly once, with the nine fields of the row (id, start and end timestamps as their
  ISO-8601 texts, planned and actual duration, the completion flag as a boolean, the task
  reference, the interruption reason, the date), in descending order of the start time; with
  no session rows it dumps the empty list.
\<close>

theorem export_json:
  "\<exists>rows. cmd_export ''json'' s = Json_dump (map to_record rows)
     \<and> (\<forall>r. count_list rows r = count_list (sessions s) r)
     \<and> sorted (rev (map (\<lambda>r. datetime_key (s_start_time r)) rows))
     \<and> (\<forall>r. e_id (to_record r) = s_id r
            \<and> e_start_time (to_record r) = s_start_time r
            \<and> e_end_time (to_record r) = s_end_time r
            \<and> e_planned_duration (to_record r) = s_planned_duration r
            \<and> e_actual_duration (to_record r) = s_actual_duration r
            \<and> e_completed (to_record r) = s_completed r
            \<and> e_task_id (to_record r) = s_task_id r
            \<and> e_interruption_reason (to_record r) = s_interruption_reason r
            \<and> e_date (to_record r) = s_date r)
     \<and> (sessions s = [] \<longrightarrow> cmd_export ''json'' s = Json_dump [])"
proof -
  have a: "cmd_export ''json'' s = Json_dump (map to_record (order_by_start_time_desc (sessions s)))"
    by (simp add: cmd_export_def)
  have b: "sessions s = [] \<longrightarrow> cmd_export ''json'' s = Json_dump []"
    by (simp add: cmd_export_def order_by_start_time_desc_def)
  have c: "e_id (to_record r) = s_id r
            \<and> e_start_time (to_record r) = s_start_time r
            \<and> e_end_time (to_record r) = s_end_time r
            \<and> e_planned_duration (to_record r) = s_planned_duration r
            \<and> e_actual_duration (to_record r) = s_actual_duration r
            \<and> e_completed (to_record r) = s_completed r
            \<and> e_task_id (to_record r) = s_task_id r
            \<and> e_interruption_reason (to_record r) = s_interruption_reason r
            \<and> e_date (to_record r) = s_date r" for r
    by (simp add: to_record_def)
  show ?thesis
    using a b c count_list_order_by sorted_order_by by blast
qed

theorem export_json_witness:
  "(\<exists>rows. cmd_export ''json'' example_state = Json_dump (map to_record rows)
      \<and> (\<forall>r. count_list rows r = count_list [example_row] r)
      \<and> sorted (rev (map (\<lambda>r. datetime_key (s_start_time r)) rows)))
   \<and> sessions empty_state = [] \<and> cmd_export ''json'' empty_state = Json_dump []"
proof -
  from export_json [of example_state] have a: "\<exists>rows. cmd_export ''json'' example_state = Json_dump (map to_record rows)
      \<and> (\<forall>r. count_list rows r = count_list [example_row] r)
      \<and> sorted (rev (map (\<lambda>r. datetime_key (s_start_time r)) rows))"
    unfolding example_sessions by blast
  have e: "sessions empty_state = []" by (simp add: empty_state_def)
  from export_json [of empty_state] e have b: "cmd_export ''json'' empty_state = Json_dump []"
    by blast
  from a e b show ?thesis by blast
qed

section \<open>The weekly report\<close>

lemma sum_list_indicator:
  "distinct ds \<Longrightarrow> (\<Sum>d \<leftarrow> ds. if x = d then 1 else 0) = (if x \<in> set ds then 1 else (0::int))"
  by (induction ds) auto

lemma sum_counts_by_key:
  assumes "distinct ds" and "set (map f rs) \<subseteq> set ds"
  shows "(\<Sum>d \<leftarrow> ds. int (length (filter (\<lambda>r. f r = d) rs))) = int (length rs)"
  using assms(2)
proof (induction rs)
  case Nil
  then show ?case by simp
next
  case (Cons r rs)
  have "(\<Sum>d \<leftarrow> ds. int (length (filter (\<lambda>r. f r = d) (r # rs))))
      = (\<Sum>d \<leftarrow> ds. (if f r = d then 1 else 0) + int (length (filter (\<lambda>r. f r = d) rs)))"
    by (intro arg_cong[where f=sum_list] map_cong) auto
  also have "\<dots> = (\<Sum>d \<leftarrow> ds. if f r = d then 1 else 0)
                 + (\<Sum>d \<leftarrow> ds. int (length (filter (\<lambda>r. f r = d) rs)))"
    by (simp add: sum_list_addf)
  also have "\<dots> = 1 + int (length rs)"
    using Cons assms(1) by (simp add: sum_list_indicator)
  finally show ?case by simp
qed

lemma group_by_date_total:
  "(\<Sum>(d, count, minutes) \<leftarrow> group_by_date rs. count) = int (length rs)"
proof -
  have "(\<Sum>(d, count, minutes) \<leftarrow> group_by_date rs. count)
      = (\<Sum>d \<leftarrow> sort_key date_key (remdups (map s_date rs)). int (length (filter (\<lambda>r. s_date r = d) rs)))"
    by (simp add: group_by_date_def comp_def)
  also have "\<dots> = int (length rs)"
    by (rule sum_counts_by_key) (simp_all)
  finally show ?thesis .
qed

lemma group_by_date_empty: "group_by_date rs = [] \<longleftrightarrow> rs = []"
proof -
  have "sort_key date_key (remdups (map s_date rs)) = [] \<longleftrightarrow> rs = []"
    by (metis length_0_conv length_sort list.map_disc_iff remdups_eq_nil_iff)
  then show ?thesis by (simp add: group_by_date_def)
qed

lemma week_loop_total:
  assumes "g \<noteq> 0"
  shows "\<exists>lines'. week_loop g rows (tp, tm, ls)
           = Inr (tp + (\<Sum>(d, count, minutes) \<leftarrow> rows. count),
                  tm + (\<Sum>(d, count, minutes) \<leftarrow> rows. or_zero minutes), lines')"
proof (induction rows arbitrary: tp tm ls)
  case Nil
  then show ?case by simp
next
  case (Cons row rows)
  obtain d c m where row: "row = (d, c, m)" by (cases row) auto
  have p: "progress c g = Inr (min (of_int c / of_int g) 1)"
    using assms by (simp add: progress_def)
  from Cons[of "tp + c" "tm + or_zero m" "ls @ [(d, c, or_zero m, render_bar 10 (min (of_int c / of_int g) 1))]"]
  show ?case by (simp add: row p add.assoc)
qed

text \<open>
  Claim C9. Whenever \<^verbatim>\<open>week\<close> prints its totals (the goal parses to a non-zero integer and
  some completed session lies on or after the Monday of the current week), the week total is
  the number of those sessions and the daily average is that total divided by 7, whatever
  the day of the week and however many days have sessions.
\<close>

theorem week_daily_average:
  assumes "get_daily_goal s = Inr g" and "g \<noteq> 0"
    and "minus_days (dt_date now) (nat (weekday (dt_date now))) = Inr week_start"
    and "filter (since_completed week_start) (sessions s) \<noteq> []"
  shows "\<exists>rep. cmd_week now s = Inr (Week rep)
     \<and> w_total_pomodoros rep = int (length (filter (since_completed week_start) (sessions s)))
     \<and> w_daily_average rep = of_int (w_total_pomodoros rep) / 7"
proof -
  let ?rows = "group_by_date (filter (since_completed week_start) (sessions s))"
  have ne: "?rows \<noteq> []" using assms(4) by (simp add: group_by_date_empty)
  from week_loop_total[OF assms(2), of ?rows 0 0 "[]"] obtain lines' where
    wl: "week_loop g ?rows (0, 0, []) =
           Inr (int (length (filter (since_completed week_start) (sessions s))),
                (\<Sum>(d, count, minutes) \<leftarrow> ?rows. or_zero minutes), lines')"
    by (auto simp: group_by_date_total)
  show ?thesis
    using ne by (simp add: cmd_week_def Let_def assms(1,3) wl)
qed

theorem week_daily_average_witness:
  "get_daily_goal example_state = Inr 8 \<and> (8::int) \<noteq> 0
   \<and> minus_days (dt_date example_later) (nat (weekday (dt_date example_later)))
        = Inr \<lparr>d_year = 2024, d_month = 3, d_day = 4\<rparr>
   \<and> filter (since_completed \<lparr>d_year = 2024, d_month = 3, d_day = 4\<rparr>) (sessions example_state) \<noteq> []
   \<and> (\<exists>rep. cmd_week example_later example_state = Inr (Week rep)
         \<and> w_total_pomodoros rep = 1 \<and> w_daily_average rep = 1 / 7)"
proof -
  have f: "filter (since_completed \<lparr>d_year = 2024, d_month = 3, d_day = 4\<rparr>) (sessions example_state)
             = [example_row]"
    unfolding example_sessions by code_simp
  have n: "filter (since_completed \<lparr>d_year = 2024, d_month = 3, d_day = 4\<rparr>) (sessions example_state) \<noteq> []"
    by (simp add: f)
  have z: "(8::int) \<noteq> 0" by simp
  from week_daily_average [OF example_goal z example_monday n]
  show ?thesis using example_goal example_monday n by (auto simp: f)
qed

section \<open>The heatmap\<close>

subsection \<open>The two loops fill the grid cell by cell\<close>










subsection \<open>The date map\<close>









lemma days_in_month_range: "28 \<le> days_in_month y m" "days_in_month y m \<le> 31"
  by (simp_all add: days_in_month_def)

lemma last_day_range:
  assumes "last_day_of first_day = Inr last_day"
  shows "28 \<le> d_day last_day" "d_day last_day \<le> 31"
  using assms days_in_month_range
  by (auto simp: last_day_of_def minus_days_def in_range_def prev_day_def
           split: sum.splits if_splits)


subsection \<open>The last day of the month\<close>






subsection \<open>The marker of a day of the month\<close>








section \<open>At most one active session\<close>

lemma init_db_fields [simp]:
  "sessions (init_db s) = sessions s" "tasks (init_db s) = tasks s"
  "current_session (init_db s) = current_session s"
  by (simp_all add: init_db_def split: option.splits)

lemma open_sessions_init_db [simp]: "open_sessions (init_db s) = open_sessions s"
  by (simp add: open_sessions_def)

lemma marker_matches_init_db [simp]: "marker_matches (init_db s) = marker_matches s"
  by (simp add: marker_matches_def split: option.splits)

lemma cmd_config_fields [simp]:
  "sessions (snd (cmd_config val s)) = sessions s" "tasks (snd (cmd_config val s)) = tasks s"
  "current_session (snd (cmd_config val s)) = current_session s"
  by (simp_all add: cmd_config_def)


lemma complete_row_closed: "\<not> is_open r \<Longrightarrow> complete_row sid now d r = r \<or> \<not> is_open (complete_row sid now d r)"
  by (simp add: complete_row_def is_open_def)



lemma cmd_complete_marker_gone [simp]: "current_session (snd (cmd_complete now s)) = None"
  by (simp add: cmd_complete_def Let_def split: option.splits)

lemma cmd_interrupt_marker_gone [simp]: "current_session (snd (cmd_interrupt reason now s)) = None"
  by (simp add: cmd_interrupt_def Let_def split: option.splits)















section \<open>Task totals\<close>

subsection \<open>The updates of \<^verbatim>\<open>complete\<close> and \<^verbatim>\<open>interrupt\<close>\<close>

lemma s_id_complete_row [simp]: "s_id (complete_row sid now d r) = s_id r"
  by (simp add: complete_row_def)

lemma s_id_interrupt_row [simp]: "s_id (interrupt_row sid now d reason r) = s_id r"
  by (simp add: interrupt_row_def)

lemma t_id_credit_task [simp]: "t_id (credit_task tid d t) = t_id t"
  by (simp add: credit_task_def)

lemma s_id_comp_complete_row [simp]: "s_id \<circ> complete_row sid now d = s_id"
  by (rule ext) simp

lemma s_id_comp_interrupt_row [simp]: "s_id \<circ> interrupt_row sid now d reason = s_id"
  by (rule ext) simp

lemma t_id_comp_credit_task [simp]: "t_id \<circ> credit_task tid d = t_id"
  by (rule ext) simp

lemma complete_row_ids [simp]: "map s_id (map (complete_row sid now d) rs) = map s_id rs"
  by (induction rs) (auto simp: complete_row_def)

lemma interrupt_row_ids [simp]: "map s_id (map (interrupt_row sid now d reason) rs) = map s_id rs"
  by (induction rs) (auto simp: interrupt_row_def)

lemma complete_row_task [simp]: "s_task_id (complete_row sid now d r) = s_task_id r"
  by (simp add: complete_row_def)

lemma interrupt_row_task [simp]: "s_task_id (interrupt_row sid now d reason r) = s_task_id r"
  by (simp add: interrupt_row_def)

lemma credit_task_ids [simp]: "map t_id (map (credit_task tid d) ts) = map t_id ts"
  by (induction ts) (auto simp: credit_task_def)






subsection \<open>Every command keeps the state consistent\<close>

























end
